theory Spec2Isabelle
  imports Main "HOL-Library.Sublist"
begin

section \<open>The browser-automation library as the script sees it\<close>

text \<open>
  \<^verbatim>\<open>verify_player.py\<close> is one function, \<^verbatim>\<open>run(playwright)\<close>, that drives a
  headless browser through a fixed sequence of library calls. Everything it does is an
  effect, so the embedding makes the effects explicit: a run is the list of operations
  it invoked, in order, together with the exception that ended it, if any.

  The values of \<open>py_exception\<close> stand for instances of Python's \<^verbatim>\<open>Exception\<close>
  class, which is what the automation library raises: its \<^verbatim>\<open>Error\<close>, its
  \<^verbatim>\<open>TimeoutError\<close>, or any other subclass of \<^verbatim>\<open>Exception\<close>. Interpreter
  signals that are not instances of \<^verbatim>\<open>Exception\<close> (a keyboard interrupt, an exit
  request) are not part of the model, and \<^verbatim>\<open>print\<close> and \<^verbatim>\<open>time.sleep\<close> are
  taken to return.
\<close>

datatype py_exception =
    PlaywrightError string
  | PlaywrightTimeoutError string
  | OtherException string

text \<open>
  A run of the script ends in one of two kinds of exception: the one the script raises
  itself (\<^verbatim>\<open>raise Exception("Server failed to start")\<close>), or one that a library call
  raised and no handler caught.
\<close>

datatype failure =
    ScriptException string
  | LibraryException py_exception

text \<open>The operations the script invokes, with the arguments it passes.\<close>

datatype action =
    Launch bool
  | NewContext nat nat
  | NewPage
  | Print string
  | Goto string nat
  | Sleep nat
  | Fill string string
  | Click string
  | WaitForSelector string nat
  | MouseMove nat nat
  | Locator string
  | IsVisible string
  | Screenshot string
  | BrowserClose

text \<open>
  The parameter of \<^verbatim>\<open>run\<close>: how the library, and the server and page behind it,
  answer each call. \<open>None\<close> is a call that returns, \<open>Some e\<close> one that raises \<open>e\<close>.
  \<^verbatim>\<open>page.goto\<close> is called once per iteration of the loop and \<^verbatim>\<open>page.mouse.move\<close>
  twice, so their answers are indexed by the iteration and by the call; every other call
  site is reached at most once in a run. \<^verbatim>\<open>is_visible\<close> returns a boolean.
\<close>

record playwright =
  launch_result :: "py_exception option"
  new_context_result :: "py_exception option"
  new_page_result :: "py_exception option"
  goto_result :: "nat \<Rightarrow> py_exception option"
  fill_result :: "py_exception option"
  click_result :: "py_exception option"
  wait_for_selector_result :: "py_exception option"
  mouse_move_result :: "nat \<Rightarrow> py_exception option"
  locator_result :: "py_exception option"
  is_visible_result :: "py_exception + bool"
  screenshot_result :: "py_exception option"
  close_result :: "py_exception option"

type_synonym outcome = "action list \<times> failure option"

section \<open>Statements and their sequencing\<close>

text \<open>A library call is recorded, then returns or raises what the library answers.\<close>

definition lib_call :: "action \<Rightarrow> py_exception option \<Rightarrow> outcome" where
  "lib_call a r = ([a], map_option LibraryException r)"

text \<open>\<^verbatim>\<open>print\<close> and \<^verbatim>\<open>time.sleep\<close>: recorded, and they return.\<close>

definition builtin :: "action \<Rightarrow> outcome" where
  "builtin a = ([a], None)"

text \<open>
  Statements run one after the other; the first exception ends the sequence, and the
  statements after it are not run.
\<close>

fun sequence :: "outcome list \<Rightarrow> outcome" where
  "sequence [] = ([], None)"
| "sequence (p # ps) =
     (case snd p of
        Some f \<Rightarrow> p
      | None \<Rightarrow> (fst p @ fst (sequence ps), snd (sequence ps)))"

section \<open>Python's \<^verbatim>\<open>str\<close> on a natural number\<close>

definition digit_char :: "nat \<Rightarrow> char" where
  "digit_char d = ''0123456789'' ! (d mod 10)"

fun str_nat :: "nat \<Rightarrow> string" where
  "str_nat n = (if n < 10 then [digit_char n] else str_nat (n div 10) @ [digit_char (n mod 10)])"

declare str_nat.simps [simp del]

section \<open>The script\<close>

text \<open>
  The retry loop of lines 11 to 19:
  \<^verbatim>\<open>
  for i in range(30):
      try:
          page.goto("http://localhost:3000", timeout=5000)
          break
      except Exception as e:
          print(f"Waiting for server... ({i})")
          time.sleep(2)
  else:
      raise Exception("Server failed to start")
  \<close>
  The list is the part of \<^verbatim>\<open>range(30)\<close> still to be iterated. The \<^verbatim>\<open>else\<close> branch
  of the \<^verbatim>\<open>for\<close> runs when the range is exhausted without \<^verbatim>\<open>break\<close>.
\<close>

fun connect_loop :: "playwright \<Rightarrow> nat list \<Rightarrow> outcome" where
  "connect_loop pw [] = ([], Some (ScriptException ''Server failed to start''))"
| "connect_loop pw (i # rest) =
     (case goto_result pw i of
        None \<Rightarrow> ([Goto ''http://localhost:3000'' 5000], None)
      | Some e \<Rightarrow>
          ([Goto ''http://localhost:3000'' 5000,
            Print (''Waiting for server... ('' @ str_nat i @ '')''),
            Sleep 2] @ fst (connect_loop pw rest),
           snd (connect_loop pw rest)))"

text \<open>
  The visibility check of lines 48 to 52: the locator's \<^verbatim>\<open>is_visible()\<close> is called,
  and either branch of the \<^verbatim>\<open>if\<close> prints one line.
\<close>

definition controls_check :: "playwright \<Rightarrow> outcome" where
  \<open>controls_check pw =
     (case is_visible_result pw of
        Inl e \<Rightarrow> ([IsVisible ''div[aria-label="Video controls"]''], Some (LibraryException e))
      | Inr visible \<Rightarrow>
          ([IsVisible ''div[aria-label="Video controls"]'',
            if visible then Print ''Controls are visible!'' else Print ''Controls NOT visible!''],
           None))\<close>

definition run :: "playwright \<Rightarrow> outcome" where
  \<open>run pw =
     sequence
       [lib_call (Launch True) (launch_result pw),
        lib_call (NewContext 1280 720) (new_context_result pw),
        lib_call NewPage (new_page_result pw),
        builtin (Print ''Navigating to home page...''),
        connect_loop pw [0..<30],
        builtin (Print ''Filling URL...''),
        lib_call (Fill ''input[type="url"]'' ''https://media.w3.org/2010/05/sintel/trailer.mp4'')
          (fill_result pw),
        builtin (Print ''Starting stream...''),
        lib_call (Click ''button:has-text("Start Streaming")'') (click_result pw),
        builtin (Print ''Waiting for video...''),
        lib_call (WaitForSelector ''video'' 10000) (wait_for_selector_result pw),
        builtin (Sleep 2),
        builtin (Print ''Hovering to show controls...''),
        lib_call (MouseMove 640 360) (mouse_move_result pw 0),
        lib_call (MouseMove 650 370) (mouse_move_result pw 1),
        builtin (Sleep 1),
        lib_call (Locator ''div[aria-label="Video controls"]'') (locator_result pw),
        controls_check pw,
        builtin (Print ''Taking screenshot...''),
        lib_call (Screenshot ''verification_controls.png'') (screenshot_result pw),
        lib_call BrowserClose (close_result pw)]\<close>

section \<open>Vocabulary for the properties\<close>

text \<open>What one failed iteration of the retry loop does: the attempt, the message, the sleep.\<close>

definition retry_cycle :: "nat \<Rightarrow> action list" where
  "retry_cycle i =
     [Goto ''http://localhost:3000'' 5000,
      Print (''Waiting for server... ('' @ str_nat i @ '')''),
      Sleep 2]"

text \<open>The operations of lines 5 to 9, before the loop.\<close>

definition boot :: "action list" where
  "boot = [Launch True, NewContext 1280 720, NewPage, Print ''Navigating to home page...'']"

text \<open>
  The operations of lines 21 to 58, after the attempt that connected, when every call
  returns and \<^verbatim>\<open>is_visible()\<close> answers \<open>visible\<close>.
\<close>

definition after_connect :: "bool \<Rightarrow> action list" where
  \<open>after_connect visible =
     [Print ''Filling URL...'',
      Fill ''input[type="url"]'' ''https://media.w3.org/2010/05/sintel/trailer.mp4'',
      Print ''Starting stream...'',
      Click ''button:has-text("Start Streaming")'',
      Print ''Waiting for video...'',
      WaitForSelector ''video'' 10000,
      Sleep 2,
      Print ''Hovering to show controls...'',
      MouseMove 640 360,
      MouseMove 650 370,
      Sleep 1,
      Locator ''div[aria-label="Video controls"]'',
      IsVisible ''div[aria-label="Video controls"]'',
      Print (if visible then ''Controls are visible!'' else ''Controls NOT visible!''),
      Print ''Taking screenshot...'',
      Screenshot ''verification_controls.png'',
      BrowserClose]\<close>

fun is_goto :: "action \<Rightarrow> bool" where
  "is_goto (Goto url ms) = True"
| "is_goto a = False"

fun is_screenshot :: "action \<Rightarrow> bool" where
  "is_screenshot (Screenshot path) = True"
| "is_screenshot a = False"

text \<open>The operations that act on the page's form: filling the input, clicking the button.\<close>

fun form_interaction :: "action \<Rightarrow> bool" where
  "form_interaction (Fill sel v) = True"
| "form_interaction (Click sel) = True"
| "form_interaction a = False"

text \<open>
  The time, in milliseconds, that the script itself allots to an operation: the length
  of a sleep, the \<^verbatim>\<open>timeout=\<close> argument of a call that has one.
\<close>

fun wait_ms :: "action \<Rightarrow> nat" where
  "wait_ms (Sleep s) = 1000 * s"
| "wait_ms (Goto url ms) = ms"
| "wait_ms (WaitForSelector sel ms) = ms"
| "wait_ms a = 0"

text \<open>The function or method an operation calls.\<close>

fun operation :: "action \<Rightarrow> string" where
  "operation (Launch h) = ''chromium.launch''"
| "operation (NewContext w h) = ''browser.new_context''"
| "operation NewPage = ''context.new_page''"
| "operation (Print s) = ''print''"
| "operation (Goto url ms) = ''page.goto''"
| "operation (Sleep s) = ''time.sleep''"
| "operation (Fill sel v) = ''page.fill''"
| "operation (Click sel) = ''page.click''"
| "operation (WaitForSelector sel ms) = ''page.wait_for_selector''"
| "operation (MouseMove x y) = ''page.mouse.move''"
| "operation (Locator sel) = ''page.locator''"
| "operation (IsVisible sel) = ''locator.is_visible''"
| "operation (Screenshot path) = ''page.screenshot''"
| "operation BrowserClose = ''browser.close''"

text \<open>The calls of one function in a run, in the order they were made.\<close>

definition calls_of :: "string \<Rightarrow> action list \<Rightarrow> action list" where
  "calls_of f t = filter (\<lambda>a. operation a = f) t"

text \<open>The statements of lines 5 to 9 and of lines 21 to 58, as \<open>run\<close> sequences them.\<close>

definition before_loop :: "playwright \<Rightarrow> outcome list" where
  "before_loop pw =
     [lib_call (Launch True) (launch_result pw),
      lib_call (NewContext 1280 720) (new_context_result pw),
      lib_call NewPage (new_page_result pw),
      builtin (Print ''Navigating to home page...'')]"

definition after_loop :: "playwright \<Rightarrow> outcome list" where
  \<open>after_loop pw =
     [builtin (Print ''Filling URL...''),
      lib_call (Fill ''input[type="url"]'' ''https://media.w3.org/2010/05/sintel/trailer.mp4'')
        (fill_result pw),
      builtin (Print ''Starting stream...''),
      lib_call (Click ''button:has-text("Start Streaming")'') (click_result pw),
      builtin (Print ''Waiting for video...''),
      lib_call (WaitForSelector ''video'' 10000) (wait_for_selector_result pw),
      builtin (Sleep 2),
      builtin (Print ''Hovering to show controls...''),
      lib_call (MouseMove 640 360) (mouse_move_result pw 0),
      lib_call (MouseMove 650 370) (mouse_move_result pw 1),
      builtin (Sleep 1),
      lib_call (Locator ''div[aria-label="Video controls"]'') (locator_result pw),
      controls_check pw,
      builtin (Print ''Taking screenshot...''),
      lib_call (Screenshot ''verification_controls.png'') (screenshot_result pw),
      lib_call BrowserClose (close_result pw)]\<close>

subsection \<open>Some environments\<close>

text \<open>A server that answers at once, and a page that behaves.\<close>

definition server_up :: playwright where
  "server_up =
     \<lparr>launch_result = None, new_context_result = None, new_page_result = None,
      goto_result = (\<lambda>i. None), fill_result = None, click_result = None,
      wait_for_selector_result = None, mouse_move_result = (\<lambda>n. None),
      locator_result = None, is_visible_result = Inr True,
      screenshot_result = None, close_result = None\<rparr>"

text \<open>A server that never starts: every navigation is refused.\<close>

definition server_down :: playwright where
  "server_down =
     server_up\<lparr>goto_result := (\<lambda>i. Some (PlaywrightError ''net::ERR_CONNECTION_REFUSED''))\<rparr>"

text \<open>A server that needs three attempts, each lost to a navigation timeout.\<close>

definition server_slow :: playwright where
  "server_slow =
     server_up\<lparr>goto_result :=
       (\<lambda>i. if i < 3 then Some (PlaywrightTimeoutError ''Timeout 5000ms exceeded.'') else None)\<rparr>"

text \<open>A page on which the video element never appears.\<close>

definition no_video :: playwright where
  "no_video =
     server_up\<lparr>wait_for_selector_result :=
       Some (PlaywrightTimeoutError ''Timeout 10000ms exceeded.'')\<rparr>"

text \<open>A server reached at the fourth attempt, after three failures of three kinds.\<close>

definition server_flaky :: playwright where
  "server_flaky =
     server_up\<lparr>goto_result :=
       (\<lambda>i. if i = 0 then Some (PlaywrightError ''net::ERR_CONNECTION_REFUSED'')
            else if i = 1 then Some (PlaywrightTimeoutError ''Timeout 5000ms exceeded.'')
            else if i = 2 then Some (OtherException ''Target page has been closed'')
            else None)\<rparr>"

text \<open>A page whose controls stay hidden.\<close>

definition controls_hidden :: playwright where
  "controls_hidden = server_up\<lparr>is_visible_result := Inr False\<rparr>"

text \<open>A page without the URL input, and one without the start button.\<close>

definition no_input :: playwright where
  "no_input =
     server_up\<lparr>fill_result := Some (PlaywrightTimeoutError ''Timeout 30000ms exceeded.'')\<rparr>"

definition no_button :: playwright where
  "no_button =
     server_up\<lparr>click_result := Some (PlaywrightTimeoutError ''Timeout 30000ms exceeded.'')\<rparr>"

section \<open>Sequencing, the loop and the shape of a run\<close>

lemma sequence_append:
  "sequence (ps @ qs) =
     (case snd (sequence ps) of
        Some f \<Rightarrow> sequence ps
      | None \<Rightarrow> (fst (sequence ps) @ fst (sequence qs), snd (sequence qs)))"
  by (induction ps) (auto split: option.splits simp: prod_eq_iff)

lemma run_steps:
  "run pw = sequence (before_loop pw @ connect_loop pw [0..<30] # after_loop pw)"
  by (simp only: run_def before_loop_def after_loop_def append.simps)

lemma before_loop_ok:
  assumes "launch_result pw = None" "new_context_result pw = None" "new_page_result pw = None"
  shows "sequence (before_loop pw) = (boot, None)"
  using assms by (simp add: before_loop_def lib_call_def builtin_def boot_def)

lemma before_loop_prefix: "prefix (fst (sequence (before_loop pw))) boot"
  by (simp add: before_loop_def lib_call_def builtin_def boot_def split: option.splits)

lemma before_loop_None:
  "snd (sequence (before_loop pw)) = None \<longleftrightarrow>
     launch_result pw = None \<and> new_context_result pw = None \<and> new_page_result pw = None"
  by (simp add: before_loop_def lib_call_def builtin_def split: option.splits)

lemma before_loop_not_script:
  "snd (sequence (before_loop pw)) \<noteq> Some (ScriptException m)"
  by (simp add: before_loop_def lib_call_def builtin_def split: option.splits)

lemma after_loop_prefix: "\<exists>b. prefix (fst (sequence (after_loop pw))) (after_connect b)"
proof (cases "is_visible_result pw")
  case (Inl e)
  then have "prefix (fst (sequence (after_loop pw))) (after_connect True)"
    by (simp add: after_loop_def lib_call_def builtin_def controls_check_def after_connect_def
        split: option.splits)
  then show ?thesis ..
next
  case (Inr b)
  then have "prefix (fst (sequence (after_loop pw))) (after_connect b)"
    by (simp add: after_loop_def lib_call_def builtin_def controls_check_def after_connect_def
        split: option.splits)
  then show ?thesis ..
qed


lemma connect_loop_all_fail:
  "\<forall>i\<in>set is. goto_result pw i \<noteq> None \<Longrightarrow>
     connect_loop pw is =
       (concat (map retry_cycle is), Some (ScriptException ''Server failed to start''))"
  by (induction "is") (auto simp: retry_cycle_def)

lemma connect_loop_first_success:
  "\<forall>i\<in>set pre. goto_result pw i \<noteq> None \<Longrightarrow> goto_result pw k = None \<Longrightarrow>
     connect_loop pw (pre @ k # post) =
       (concat (map retry_cycle pre) @ [Goto ''http://localhost:3000'' 5000], None)"
  by (induction pre) (auto simp: retry_cycle_def)

lemma range_split: "k < n \<Longrightarrow> [0..<n] = [0..<k] @ k # [Suc k..<n]"
  by (metis upt_conv_Cons upt_add_eq_append le_add_diff_inverse less_imp_le_nat zero_le)

lemma connect_loop_range_fail:
  "\<forall>i<n. goto_result pw i \<noteq> None \<Longrightarrow>
     connect_loop pw [0..<n] =
       (concat (map retry_cycle [0..<n]), Some (ScriptException ''Server failed to start''))"
  by (rule connect_loop_all_fail) simp

lemma connect_loop_range_success:
  assumes "k < n" "\<forall>i<k. goto_result pw i \<noteq> None" "goto_result pw k = None"
  shows "connect_loop pw [0..<n] =
    (concat (map retry_cycle [0..<k]) @ [Goto ''http://localhost:3000'' 5000], None)"
proof -
  have "connect_loop pw ([0..<k] @ k # [Suc k..<n]) =
      (concat (map retry_cycle [0..<k]) @ [Goto ''http://localhost:3000'' 5000], None)"
    by (rule connect_loop_first_success) (use assms in simp_all)
  then show ?thesis using range_split [OF assms(1)] by simp
qed

lemma first_success:
  "(\<forall>i<n. goto_result pw i \<noteq> None) \<or>
   (\<exists>k<n. (\<forall>i<k. goto_result pw i \<noteq> None) \<and> goto_result pw k = None)"
proof (cases "\<forall>i<n. goto_result pw i \<noteq> None")
  case True then show ?thesis by simp
next
  case False
  then obtain j where j: "j < n" "goto_result pw j = None" by auto
  define k where "k = (LEAST i. goto_result pw i = None)"
  have "goto_result pw k = None" unfolding k_def using j(2) by (rule LeastI)
  moreover have "k \<le> j" unfolding k_def using j(2) by (rule Least_le)
  moreover have "\<forall>i<k. goto_result pw i \<noteq> None" unfolding k_def using not_less_Least by blast
  ultimately have "k < n \<and> (\<forall>i<k. goto_result pw i \<noteq> None) \<and> goto_result pw k = None"
    using j(1) by simp
  then show ?thesis by blast
qed

text \<open>The run once the browser is set up, in terms of the loop's outcome.\<close>

lemma run_loop_raised:
  assumes "sequence (before_loop pw) = (boot, None)"
    and "connect_loop pw [0..<30] = (t, Some f)"
  shows "run pw = (boot @ t, Some f)"
  using assms by (simp add: run_steps sequence_append)

lemma run_loop_connected:
  assumes "sequence (before_loop pw) = (boot, None)"
    and "connect_loop pw [0..<30] = (t, None)"
  shows "run pw = (boot @ t @ fst (sequence (after_loop pw)), snd (sequence (after_loop pw)))"
  using assms by (simp add: run_steps sequence_append)

lemma run_setup_raised:
  assumes "snd (sequence (before_loop pw)) = Some f"
  shows "run pw = sequence (before_loop pw)"
  using assms by (simp add: run_steps sequence_append)

lemma run_cases [case_names setup_raised never_connected connected]:
  obtains
    (setup_raised) f where
      "snd (sequence (before_loop pw)) = Some f"
      "run pw = sequence (before_loop pw)"
  | (never_connected)
      "sequence (before_loop pw) = (boot, None)"
      "\<forall>i<30. goto_result pw i \<noteq> None"
      "run pw = (boot @ concat (map retry_cycle [0..<30]),
                 Some (ScriptException ''Server failed to start''))"
  | (connected) k where
      "sequence (before_loop pw) = (boot, None)"
      "k < 30" "\<forall>i<k. goto_result pw i \<noteq> None" "goto_result pw k = None"
      "run pw = (boot @ concat (map retry_cycle [0..<k]) @
                   Goto ''http://localhost:3000'' 5000 # fst (sequence (after_loop pw)),
                 snd (sequence (after_loop pw)))"
proof (cases "snd (sequence (before_loop pw))")
  case (Some f)
  then show ?thesis using setup_raised run_setup_raised by blast
next
  case None
  then have ok: "sequence (before_loop pw) = (boot, None)"
    by (simp add: before_loop_None before_loop_ok)
  from first_success [of 30 pw] show ?thesis
  proof
    assume all: "\<forall>i<30. goto_result pw i \<noteq> None"
    then have "run pw = (boot @ concat (map retry_cycle [0..<30]),
        Some (ScriptException ''Server failed to start''))"
      by (intro run_loop_raised ok connect_loop_range_fail)
    with ok all show ?thesis by (rule never_connected)
  next
    assume "\<exists>k<30. (\<forall>i<k. goto_result pw i \<noteq> None) \<and> goto_result pw k = None"
    then obtain k where k: "k < 30" "\<forall>i<k. goto_result pw i \<noteq> None" "goto_result pw k = None"
      by blast
    have "run pw = (boot @ concat (map retry_cycle [0..<k]) @
                   Goto ''http://localhost:3000'' 5000 # fst (sequence (after_loop pw)),
                 snd (sequence (after_loop pw)))"
      using run_loop_connected [OF ok connect_loop_range_success [OF k]] by simp
    with ok k show ?thesis by (rule connected)
  qed
qed

lemma after_loop_not_script: "snd (sequence (after_loop pw)) \<noteq> Some (ScriptException m)"
  by (simp add: after_loop_def lib_call_def builtin_def controls_check_def
      split: option.splits sum.splits)

lemma after_loop_starts:
  \<open>prefix [Print ''Filling URL...'',
           Fill ''input[type="url"]'' ''https://media.w3.org/2010/05/sintel/trailer.mp4'']
     (fst (sequence (after_loop pw)))\<close>
  by (simp add: after_loop_def lib_call_def builtin_def split: option.splits)

lemma form_interaction_cycles: "a \<in> set (concat (map retry_cycle xs)) \<Longrightarrow> \<not> form_interaction a"
  by (induction xs) (auto simp: retry_cycle_def)

lemma form_interaction_boot: "a \<in> set boot \<Longrightarrow> \<not> form_interaction a"
  by (auto simp: boot_def)

section \<open>The one explicit failure path\<close>

text \<open>
  Claim C1. Once the browser, context and page exist, the run ends with the script's own
  exception \<open>Server failed to start\<close> exactly when all 30 attempts of \<^verbatim>\<open>page.goto\<close>
  raise; in that case no operation of the run touches the form. When some attempt
  returns, the run never ends with an exception of the script's own, and the attempt that
  connected is followed at once by the message \<open>Filling URL...\<close> and the call of
  \<^verbatim>\<open>page.fill\<close>.
\<close>

theorem server_failure_iff_every_attempt_fails:
  assumes "launch_result pw = None" "new_context_result pw = None" "new_page_result pw = None"
  shows \<open>(snd (run pw) = Some (ScriptException ''Server failed to start'')
            \<longleftrightarrow> (\<forall>i<30. goto_result pw i \<noteq> None))
    \<and> ((\<forall>i<30. goto_result pw i \<noteq> None) \<longrightarrow> (\<forall>a\<in>set (fst (run pw)). \<not> form_interaction a))
    \<and> ((\<exists>i<30. goto_result pw i = None) \<longrightarrow>
          (\<forall>m. snd (run pw) \<noteq> Some (ScriptException m)) \<and>
          (\<exists>k<30. prefix
             (boot @ concat (map retry_cycle [0..<k]) @
                [Goto ''http://localhost:3000'' 5000,
                 Print ''Filling URL...'',
                 Fill ''input[type="url"]'' ''https://media.w3.org/2010/05/sintel/trailer.mp4''])
             (fst (run pw))))\<close>
proof (cases pw rule: run_cases)
  case (setup_raised f)
  with assms show ?thesis by (simp add: before_loop_ok)
next
  case never_connected
  have "\<forall>a\<in>set (fst (run pw)). \<not> form_interaction a"
  proof
    fix a
    assume "a \<in> set (fst (run pw))"
    then have "a \<in> set boot \<or> a \<in> set (concat (map retry_cycle [0..<30]))"
      unfolding never_connected(3) fst_conv set_append by blast
    then show "\<not> form_interaction a"
      using form_interaction_cycles form_interaction_boot by blast
  qed
  moreover have "\<not> (\<exists>i<30. goto_result pw i = None)"
    using never_connected(2) by blast
  moreover have "snd (run pw) = Some (ScriptException ''Server failed to start'')"
    by (simp add: never_connected(3))
  ultimately show ?thesis
    using never_connected(2) by blast
next
  case (connected k)
  have "prefix
      (boot @ concat (map retry_cycle [0..<k]) @
         [Goto ''http://localhost:3000'' 5000,
          Print ''Filling URL...'',
          Fill ''input[type=\"url\"]'' ''https://media.w3.org/2010/05/sintel/trailer.mp4''])
      (fst (run pw))"
    using after_loop_starts [of pw] by (simp add: connected(5))
  moreover have "\<forall>m. snd (run pw) \<noteq> Some (ScriptException m)"
    by (simp add: connected(5) after_loop_not_script)
  moreover have "\<not> (\<forall>i<30. goto_result pw i \<noteq> None)"
    using connected(2,4) by blast
  ultimately show ?thesis using connected(2) by blast
qed

theorem server_failure_iff_every_attempt_fails_witness:
  "snd (run server_down) = Some (ScriptException ''Server failed to start'') \<and>
   snd (run server_slow) \<noteq> Some (ScriptException ''Server failed to start'')"
proof -
  have d: "launch_result server_down = None" "new_context_result server_down = None"
    "new_page_result server_down = None"
    by (simp_all add: server_down_def server_up_def)
  have s: "launch_result server_slow = None" "new_context_result server_slow = None"
    "new_page_result server_slow = None"
    by (simp_all add: server_slow_def server_up_def)
  have "\<forall>i<30. goto_result server_down i \<noteq> None"
    by (simp add: server_down_def server_up_def)
  moreover have "\<exists>i<30. goto_result server_slow i = None"
    by (rule exI [of _ 3]) (simp add: server_slow_def server_up_def)
  ultimately show ?thesis
    using server_failure_iff_every_attempt_fails [OF d]
      server_failure_iff_every_attempt_fails [OF s]
    by blast
qed

end
